theory Spec2Isabelle
  imports Complex_Main "HOL-Library.Sublist" "HOL-Library.AList"
begin

section \<open>Sounder: a shallow embedding of src/Sounder.js\<close>

text \<open>
  The JavaScript class \<^verbatim>\<open>Sounder\<close> is modelled by value. Strings are lists of 8-bit
  characters; the only case mapping the code relies on (\<^verbatim>\<open>toUpperCase\<close>, the \<^verbatim>\<open>i\<close> flag of
  a regular expression) is the ASCII one, since neither maps a character outside ASCII to
  an ASCII letter. Every \<^verbatim>\<open>throw new Error(...)\<close> of the source is a value of \<open>err\<close>.
\<close>

subsection \<open>Strings\<close>

definition lower_letters :: string where
  "lower_letters = ''abcdefghijklmnopqrstuvwxyz''"

definition upper_letters :: string where
  "upper_letters = ''ABCDEFGHIJKLMNOPQRSTUVWXYZ''"

definition toUpperChar :: "char \<Rightarrow> char" where
  "toUpperChar c = (case map_of (zip lower_letters upper_letters) c of Some u \<Rightarrow> u | None \<Rightarrow> c)"

definition toLowerChar :: "char \<Rightarrow> char" where
  "toLowerChar c = (case map_of (zip upper_letters lower_letters) c of Some l \<Rightarrow> l | None \<Rightarrow> c)"

definition toUpperCase :: "string \<Rightarrow> string" where
  "toUpperCase s = map toUpperChar s"

text \<open>\<^verbatim>\<open>includes_str p s\<close>: the string \<open>p\<close> occurs in \<open>s\<close> as a contiguous substring.\<close>

fun includes_str :: "string \<Rightarrow> string \<Rightarrow> bool" where
  "includes_str p [] = (p = [])"
| "includes_str p (c # cs) = (prefix p (c # cs) \<or> includes_str p cs)"

text \<open>
  \<^verbatim>\<open>/lit/i.test(s)\<close> for a pattern that is a literal string: a case-insensitive
  substring test.
\<close>

definition test_i :: "string \<Rightarrow> string \<Rightarrow> bool" where
  "test_i lit s = includes_str (map toLowerChar lit) (map toLowerChar s)"

subsection \<open>Errors\<close>

text \<open>
  One constructor per error message of the source, named after the error kinds of the
  specification:
  \<^item> \<open>InvalidSoundName\<close>: "Got incorrect sound name."
  \<^item> \<open>SoundNotFound\<close>: "Failed at looking for sound data with name ..."
  \<^item> \<open>UnknownEncoding\<close>: "Got incorrect audio extension: ..." and
    "Failed at looking for audio type ..." (both thrown by \<^verbatim>\<open>__getAudioType\<close>)
  \<^item> \<open>NoPlayableFormat\<close>: "There are no available extensions.",
    "Failed at looking for audio extension browser can play!" and
    "No available extension of sound were found at server!"
  \<^item> \<open>InvalidAttribute\<close>: "Got invalid HTML attribute of <audio> element."
  \<^item> \<open>InvalidExtension\<close>: "Got invalid audio extension."
  \<^item> \<open>InvalidAudioElem\<close>: "Got invalid <audio> element." and "Got incorrect <audio> element."
  \<^item> \<open>InvalidSoundsData\<close>: "Got incorrect data of sounds to make." (thrown for an argument
    that is not an array, which the types of the model exclude)
  \<^item> \<open>TypeError\<close>: the engine's own error for a property access on \<^verbatim>\<open>undefined\<close>
  \<^item> \<open>HostError\<close>: an error raised by the host's media element
\<close>

datatype err =
    InvalidSoundName
  | SoundNotFound
  | UnknownEncoding
  | NoPlayableFormat
  | InvalidAttribute
  | InvalidExtension
  | InvalidAudioElem
  | InvalidSoundsData
  | TypeError
  | HostError

subsection \<open>The host environment\<close>

text \<open>
  What the code reads from the browser: \<^verbatim>\<open>navigator.vendor\<close>, \<^verbatim>\<open>navigator.userAgent\<close>,
  and the \<^verbatim>\<open>canPlayType\<close> method of an audio element (\<open>None\<close> when the element has no
  such method), and what \<^verbatim>\<open>play()\<close> and \<^verbatim>\<open>pause()\<close> of an element do when called
  (\<open>Some e\<close>: the call throws).
\<close>

record host =
  vendor :: string
  userAgent :: string
  canPlayType :: "(string \<Rightarrow> string) option"
  playThrows :: "err option"
  pauseThrows :: "err option"

subsection \<open>Browser classifier\<close>

definition isOpera :: "string \<Rightarrow> bool" where
  "isOpera ua = (test_i ''opera'' ua \<or> test_i ''opr'' ua)"

definition getBrowserName :: "string \<Rightarrow> string \<Rightarrow> string" where
  "getBrowserName v ua =
     (if test_i ''chrome'' ua \<and> test_i ''google inc.'' v \<and> \<not> isOpera ua then ''chrome''
      else if test_i ''firefox'' ua then ''firefox''
      else if isOpera ua then ''opera''
      else if test_i ''msie'' ua then ''explorer''
      else if test_i ''edge'' ua then ''edge''
      else if test_i ''Apple Computer, Inc.'' v then ''safari''
      else '''')"

text \<open>
  The priority chain as the specification words it (4.1): Opera first, then Chrome,
  Firefox, Explorer, Edge, Safari, the first match winning.
\<close>

definition spec_priority_chain :: "string \<Rightarrow> string \<Rightarrow> string" where
  "spec_priority_chain v ua =
     (if isOpera ua then ''opera''
      else if test_i ''chrome'' ua \<and> test_i ''google inc.'' v \<and> \<not> isOpera ua then ''chrome''
      else if test_i ''firefox'' ua then ''firefox''
      else if test_i ''msie'' ua then ''explorer''
      else if test_i ''edge'' ua then ''edge''
      else if test_i ''Apple Computer, Inc.'' v then ''safari''
      else '''')"

subsection \<open>Format catalog\<close>

definition OGG :: string where "OGG = ''ogg''"
definition MP4 :: string where "MP4 = ''mp4''"
definition MP3 :: string where "MP3 = ''mp3''"
definition WAV :: string where "WAV = ''wav''"
definition AAC :: string where "AAC = ''aac''"

definition OGG_TYPE :: string where "OGG_TYPE = ''audio/ogg; codecs=\"vorbis\"''"
definition MP4_TYPE :: string where "MP4_TYPE = ''audio/mp4; codecs=\"mp4a.40.5\"''"
definition MP3_TYPE :: string where "MP3_TYPE = ''audio/mpeg;''"
definition WAV_TYPE :: string where "WAV_TYPE = ''audio/wav; codecs=\"1\"''"
definition AAC_TYPE :: string where "AAC_TYPE = ''audio/mp4; codecs=\"mp4a.40.2\"''"

text \<open>
  The properties of the constructor function \<^verbatim>\<open>Sounder\<close> whose key ends in \<^verbatim>\<open>_TYPE\<close>:
  the lookup \<^verbatim>\<open>Sounder[ext.toUpperCase() + "_TYPE"]\<close> can only find one of these.
\<close>

definition type_table :: "(string \<times> string) list" where
  "type_table =
     [(''OGG_TYPE'', OGG_TYPE), (''MP4_TYPE'', MP4_TYPE), (''MP3_TYPE'', MP3_TYPE),
      (''WAV_TYPE'', WAV_TYPE), (''AAC_TYPE'', AAC_TYPE)]"

definition getAudioType :: "string \<Rightarrow> err + string" where
  "getAudioType ext =
     (if ext = [] then Inl UnknownEncoding
      else case map_of type_table (toUpperCase ext @ ''_TYPE'') of
             None \<Rightarrow> Inl UnknownEncoding
           | Some t \<Rightarrow> Inr t)"

text \<open>\<^verbatim>\<open>s.replace(/no/, '')\<close>: removes the first occurrence of "no".\<close>

fun replace_no :: "string \<Rightarrow> string" where
  "replace_no [] = []"
| "replace_no (c # cs) = (if prefix ''no'' (c # cs) then drop 2 (c # cs) else c # replace_no cs)"

definition canPlayExt :: "host \<Rightarrow> string \<Rightarrow> err + bool" where
  "canPlayExt h ext =
     (case canPlayType h of
        None \<Rightarrow> Inr False
      | Some f \<Rightarrow>
          (case getAudioType ext of
             Inl e \<Rightarrow> Inl e
           | Inr t \<Rightarrow> Inr (replace_no (f t) \<noteq> [])))"

text \<open>The loop of \<^verbatim>\<open>__getExtFromAvailableExts\<close>, from index \<open>i\<close> to the end of the array.\<close>

fun scanExts :: "host \<Rightarrow> string list \<Rightarrow> err + string" where
  "scanExts h [] = Inl NoPlayableFormat"
| "scanExts h (e # es) =
     (case canPlayExt h e of
        Inl x \<Rightarrow> Inl x
      | Inr True \<Rightarrow> Inr e
      | Inr False \<Rightarrow> scanExts h es)"

definition getExtFromAvailableExts :: "host \<Rightarrow> string list \<Rightarrow> err + string" where
  "getExtFromAvailableExts h exts =
     (if exts = [] then Inl NoPlayableFormat else scanExts h exts)"

definition exts_all :: "string list" where "exts_all = [WAV, OGG, AAC, MP3, MP4]"
definition exts_firefox :: "string list" where "exts_firefox = [OGG, MP3, WAV]"
definition exts_chrome :: "string list" where "exts_chrome = [OGG, MP4, MP3, WAV, AAC]"
definition exts_opera :: "string list" where "exts_opera = [OGG]"
definition exts_safari :: "string list" where "exts_safari = [MP4, MP3, WAV, AAC]"
definition exts_explorer :: "string list" where "exts_explorer = [MP3]"
definition exts_edge :: "string list" where "exts_edge = [MP4, MP3, WAV, AAC]"

definition exts_table :: "(string \<times> string list) list" where
  "exts_table =
     [(''all'', exts_all), (''firefox'', exts_firefox), (''chrome'', exts_chrome),
      (''opera'', exts_opera), (''safari'', exts_safari), (''explorer'', exts_explorer),
      (''edge'', exts_edge)]"

definition getBrowserExts :: "host \<Rightarrow> string list" where
  "getBrowserExts h =
     (let browserName = getBrowserName (vendor h) (userAgent h)
      in case map_of exts_table (if browserName \<noteq> [] then browserName else ''all'') of
           Some exts \<Rightarrow> exts
         | None \<Rightarrow> [])"

definition validateExt :: "string \<Rightarrow> bool" where
  "validateExt ext = (ext \<in> set exts_all)"

definition validateExtStrict :: "string \<Rightarrow> err + string" where
  "validateExtStrict ext = (if validateExt ext then Inr ext else Inl InvalidExtension)"

subsection \<open>JavaScript values and objects\<close>

text \<open>
  The primitive values an option can hold. Numbers are rationals: the code only passes
  them on and tests them for zero (\<^verbatim>\<open>NaN\<close> is left out). An object is the association
  list of its own properties, with distinct keys.
\<close>

datatype jsval = JUndefined | JNull | JBool bool | JNum rat | JStr string

fun truthy :: "jsval \<Rightarrow> bool" where
  "truthy JUndefined = False"
| "truthy JNull = False"
| "truthy (JBool b) = b"
| "truthy (JNum n) = (n \<noteq> 0)"
| "truthy (JStr s) = (s \<noteq> [])"

fun typeof :: "jsval \<Rightarrow> string" where
  "typeof JUndefined = ''undefined''"
| "typeof JNull = ''object''"
| "typeof (JBool b) = ''boolean''"
| "typeof (JNum n) = ''number''"
| "typeof (JStr s) = ''string''"

type_synonym obj = "(string \<times> jsval) list"

definition hasOwnProperty :: "obj \<Rightarrow> string \<Rightarrow> bool" where
  "hasOwnProperty ob k = (map_of ob k \<noteq> None)"

definition getProp :: "obj \<Rightarrow> string \<Rightarrow> jsval" where
  "getProp ob k = (case map_of ob k of Some v \<Rightarrow> v | None \<Rightarrow> JUndefined)"

subsection \<open>Media elements and sounds\<close>

text \<open>
  An \<^verbatim>\<open><audio>\<close> element: the attributes written by \<^verbatim>\<open>setAttribute\<close> (the value is kept
  as it was passed), the \<^verbatim>\<open><source>\<close> children in the order they were appended, and the
  playback state that \<^verbatim>\<open>play\<close>, \<^verbatim>\<open>pause\<close> and \<^verbatim>\<open>stop\<close> touch.
\<close>

record source_elem =
  src :: string
  type_attr :: string

record audio_elem =
  attributes :: obj
  children :: "source_elem list"
  currentTime :: rat
  paused :: bool

definition createAudio :: audio_elem where
  "createAudio = \<lparr>attributes = [], children = [], currentTime = 0, paused = True\<rparr>"

definition setAttribute :: "string \<Rightarrow> jsval \<Rightarrow> audio_elem \<Rightarrow> audio_elem" where
  "setAttribute k v a = a\<lparr>attributes := AList.update k v (attributes a)\<rparr>"

definition appendChild :: "source_elem \<Rightarrow> audio_elem \<Rightarrow> audio_elem" where
  "appendChild c a = a\<lparr>children := children a @ [c]\<rparr>"

text \<open>
  A sound object, as the caller writes it and as the registry holds it. \<open>name\<close> is
  \<open>None\<close> when the property is absent (the documented type of the property is string);
  \<open>props\<close> are its other own properties; \<open>audio\<close> is \<open>Some a\<close> exactly when
  \<^verbatim>\<open>sound.audio instanceof HTMLAudioElement\<close>.
\<close>

record sound =
  name :: "string option"
  props :: obj
  audio :: "audio_elem option"

text \<open>
  What a slot of \<^verbatim>\<open>this.__sounds\<close> can hold: a sound object, or a bare audio element
  (\<^verbatim>\<open>__makeAudioElem\<close> resolves with \<^verbatim>\<open>sound.audio\<close> when the sound already has one).
\<close>

datatype entry = SoundEntry sound | ElemEntry audio_elem

subsection \<open>Registration\<close>

definition attrs :: "string list" where
  "attrs = [''autoplay'', ''loop'', ''muted'', ''preload'', ''volume'']"

definition getDefSoundParams :: sound where
  "getDefSoundParams =
     \<lparr>name = None,
      props = [(''autoplay'', JBool False), (''loop'', JBool False), (''muted'', JBool False),
               (''preload'', JBool True), (''volume'', JNum 1)],
      audio = None\<rparr>"

text \<open>
  jQuery's \<^verbatim>\<open>$.extend(target, object)\<close>: every own property of \<open>object\<close> whose value is
  not \<^verbatim>\<open>undefined\<close> is copied onto \<open>target\<close>.
\<close>

definition extend_props :: "obj \<Rightarrow> obj \<Rightarrow> obj" where
  "extend_props target ob =
     fold (\<lambda>(k, v) t. if v = JUndefined then t else AList.update k v t) ob target"

definition jQuery_extend :: "sound \<Rightarrow> sound \<Rightarrow> sound" where
  "jQuery_extend target s =
     \<lparr>name = (case name s of None \<Rightarrow> name target | Some n \<Rightarrow> Some n),
      props = extend_props (props target) (props s),
      audio = (case audio s of None \<Rightarrow> audio target | Some a \<Rightarrow> Some a)\<rparr>"

text \<open>\<^verbatim>\<open>!sound.name\<close>: the name is absent or the empty string.\<close>

definition nameMissing :: "sound \<Rightarrow> bool" where
  "nameMissing s = (case name s of None \<Rightarrow> True | Some n \<Rightarrow> n = [])"

text \<open>The \<^verbatim>\<open>sounds.map(...)\<close> of \<^verbatim>\<open>__prepareSounds\<close>; the first throw ends it.\<close>

fun prepareSoundsMap :: "sound list \<Rightarrow> err + sound list" where
  "prepareSoundsMap [] = Inr []"
| "prepareSoundsMap (s # ss) =
     (if nameMissing s then Inl InvalidSoundName
      else case prepareSoundsMap ss of
             Inl e \<Rightarrow> Inl e
           | Inr r \<Rightarrow> Inr (jQuery_extend getDefSoundParams s # r))"

text \<open>The argument is \<open>None\<close> when \<^verbatim>\<open>Array.isArray(sounds)\<close> is false.\<close>

definition prepareSounds :: "sound list option \<Rightarrow> err + sound list" where
  "prepareSounds p =
     (let sounds = (case p of Some l \<Rightarrow> l | None \<Rightarrow> [])
      in if sounds = [] then Inr [] else prepareSoundsMap sounds)"

subsection \<open>The instance\<close>

text \<open>
  The value a promise of the preparation chain settles to: fulfilled, rejected, or never
  settled (\<open>Pending\<close>: neither \<^verbatim>\<open>success\<close> nor \<^verbatim>\<open>error\<close> of its executor is ever called).
\<close>

datatype 'a completion = Fulfilled 'a | Rejected err | Pending

text \<open>What \<^verbatim>\<open>prepare()\<close> resolves with: the instance, or nothing.\<close>

datatype pval = This | Undefined

text \<open>
  The fields of a \<^verbatim>\<open>Sounder\<close> object, without the leading underscores. Three fields are
  bookkeeping of the model: \<open>nextPromise\<close> numbers the promises \<^verbatim>\<open>prepare\<close> creates,
  \<open>inflight\<close> lists the preparation runs whose \<^verbatim>\<open>__makeAudioElems()\<close> promise has not
  settled, and \<open>console\<close> collects the warnings passed to \<^verbatim>\<open>console.warn\<close>. The fields
  \<^verbatim>\<open>__attrs\<close> and \<^verbatim>\<open>__exts\<close> never change: they are the constants \<open>attrs\<close> and
  \<open>exts_table\<close>. The field \<^verbatim>\<open>__browserExts\<close> is written by the constructor and never read.
\<close>

record sounder =
  sounds :: "entry list"
  path :: string
  autoplay :: jsval
  loop :: jsval
  muted :: jsval
  preload :: jsval
  volume :: jsval
  ready :: bool
  preparing :: bool
  preparingPromise :: "nat option"
  nextPromise :: nat
  inflight :: "nat list"
  console :: "string list"

text \<open>
  The constructor's argument: \<open>psounds\<close> is \<^verbatim>\<open>params.sounds\<close> when that is an array,
  \<open>popts\<close> holds the other properties of \<^verbatim>\<open>params\<close> (none when \<^verbatim>\<open>params\<close> is omitted).
\<close>

record params =
  psounds :: "sound list option"
  popts :: obj

definition Sounder :: "params \<Rightarrow> err + sounder" where
  "Sounder p =
     (case prepareSounds (psounds p) of
        Inl e \<Rightarrow> Inl e
      | Inr snds \<Rightarrow>
          Inr \<lparr>sounds = map SoundEntry snds,
               path = (case getProp (popts p) ''path'' of JStr s \<Rightarrow> s | _ \<Rightarrow> []),
               autoplay = (if typeof (getProp (popts p) ''autoplay'') = ''string''
                           then getProp (popts p) ''autoplay'' else JBool False),
               loop = (if typeof (getProp (popts p) ''loop'') = ''boolean''
                       then getProp (popts p) ''loop'' else JBool False),
               muted = (if typeof (getProp (popts p) ''muted'') = ''boolean''
                        then getProp (popts p) ''muted'' else JBool False),
               preload = (if typeof (getProp (popts p) ''preload'') = ''boolean''
                          then getProp (popts p) ''preload'' else JBool True),
               volume = (if typeof (getProp (popts p) ''volume'') = ''number''
                         then getProp (popts p) ''volume'' else JNum 1),
               ready = False,
               preparing = False,
               preparingPromise = None,
               nextPromise = 0,
               inflight = [],
               console = []\<rparr>)"

subsection \<open>Attributes of an audio element\<close>

definition validateAttr :: "string \<Rightarrow> bool" where
  "validateAttr attr = (attr \<in> set attrs)"

definition validateAttrStrict :: "string \<Rightarrow> err + string" where
  "validateAttrStrict attr = (if validateAttr attr then Inr attr else Inl InvalidAttribute)"

definition validateAudioElemStrict :: "audio_elem option \<Rightarrow> err + audio_elem" where
  "validateAudioElemStrict a = (case a of Some e \<Rightarrow> Inr e | None \<Rightarrow> Inl InvalidAudioElem)"

text \<open>\<^verbatim>\<open>this["__" + attr]\<close> for one of the five attribute names.\<close>

definition instAttr :: "sounder \<Rightarrow> string \<Rightarrow> jsval" where
  "instAttr inst attr =
     (if attr = ''autoplay'' then autoplay inst
      else if attr = ''loop'' then loop inst
      else if attr = ''muted'' then muted inst
      else if attr = ''preload'' then preload inst
      else if attr = ''volume'' then volume inst
      else JUndefined)"

definition getAudioAttrVal :: "sounder \<Rightarrow> string \<Rightarrow> sound \<Rightarrow> err + jsval" where
  "getAudioAttrVal inst attr sd =
     (case validateAttrStrict attr of
        Inl e \<Rightarrow> Inl e
      | Inr _ \<Rightarrow>
          Inr (if hasOwnProperty (props sd) attr then getProp (props sd) attr
               else instAttr inst attr))"

definition setAudioElemAttr :: "sounder \<Rightarrow> string \<Rightarrow> sound \<Rightarrow> err + sound" where
  "setAudioElemAttr inst attr sd =
     (case validateAttrStrict attr of
        Inl e \<Rightarrow> Inl e
      | Inr _ \<Rightarrow>
          (case validateAudioElemStrict (audio sd) of
             Inl e \<Rightarrow> Inl e
           | Inr a \<Rightarrow>
               (case getAudioAttrVal inst attr sd of
                  Inl e \<Rightarrow> Inl e
                | Inr attrVal \<Rightarrow>
                    Inr (if truthy attrVal then sd\<lparr>audio := Some (setAttribute attr attrVal a)\<rparr>
                         else sd))))"

text \<open>The \<^verbatim>\<open>forEach\<close> over the attribute names; a throw ends it.\<close>

fun setAttrsEach :: "sounder \<Rightarrow> string list \<Rightarrow> sound \<Rightarrow> err + sound" where
  "setAttrsEach inst [] sd = Inr sd"
| "setAttrsEach inst (attr # rest) sd =
     (case setAudioElemAttr inst attr sd of
        Inl e \<Rightarrow> Inl e
      | Inr sd' \<Rightarrow> setAttrsEach inst rest sd')"

definition setAudioElemAttrs :: "sounder \<Rightarrow> sound \<Rightarrow> err + sound" where
  "setAudioElemAttrs inst sd =
     (case audio sd of
        None \<Rightarrow> Inl InvalidAudioElem
      | Some _ \<Rightarrow> setAttrsEach inst attrs sd)"

subsection \<open>Promise chains\<close>

text \<open>
  \<^verbatim>\<open>p.then(f)\<close> and \<^verbatim>\<open>p.catch(f)\<close> for a handler that reads and writes the instance: the
  handler returns a value (\<open>Inr\<close>) or throws (\<open>Inl\<close>). A promise that never settles never
  runs a handler.
\<close>

definition then_st ::
  "'a completion \<times> 's \<Rightarrow> ('a \<Rightarrow> 's \<Rightarrow> (err + 'b) \<times> 's) \<Rightarrow> 'b completion \<times> 's" where
  "then_st ps f =
     (case ps of
        (Fulfilled v, s) \<Rightarrow>
          (case f v s of (Inl e, s') \<Rightarrow> (Rejected e, s') | (Inr r, s') \<Rightarrow> (Fulfilled r, s'))
      | (Rejected e, s) \<Rightarrow> (Rejected e, s)
      | (Pending, s) \<Rightarrow> (Pending, s))"

definition catch_st ::
  "'a completion \<times> 's \<Rightarrow> (err \<Rightarrow> 's \<Rightarrow> (err + 'a) \<times> 's) \<Rightarrow> 'a completion \<times> 's" where
  "catch_st ps f =
     (case ps of
        (Fulfilled v, s) \<Rightarrow> (Fulfilled v, s)
      | (Rejected e, s) \<Rightarrow>
          (case f e s of (Inl e', s') \<Rightarrow> (Rejected e', s') | (Inr r, s') \<Rightarrow> (Fulfilled r, s'))
      | (Pending, s) \<Rightarrow> (Pending, s))"

definition quoted :: "string \<Rightarrow> string" where
  "quoted s = CHR 0x27 # s @ [CHR 0x27]"

text \<open>A name inside a message: \<^verbatim>\<open>undefined\<close> is printed for a missing one.\<close>

definition nameText :: "string option \<Rightarrow> string" where
  "nameText n = (case n of Some s \<Rightarrow> s | None \<Rightarrow> ''undefined'')"

subsection \<open>Sources of an audio element\<close>

definition getSoundPathBase :: "sounder \<Rightarrow> string \<Rightarrow> string" where
  "getSoundPathBase inst nm = path inst @ nm @ ''.''"

definition getSoundPath :: "sounder \<Rightarrow> string \<Rightarrow> string \<Rightarrow> err + string" where
  "getSoundPath inst nm ext =
     (case validateExtStrict ext of
        Inl e \<Rightarrow> Inl e
      | Inr _ \<Rightarrow> Inr (getSoundPathBase inst nm @ ext))"

definition makeAudioElemSource :: "sounder \<Rightarrow> string \<Rightarrow> string \<Rightarrow> err + source_elem" where
  "makeAudioElemSource inst nm ext =
     (case validateExtStrict ext of
        Inl e \<Rightarrow> Inl e
      | Inr _ \<Rightarrow>
          (case getSoundPath inst nm ext of
             Inl e \<Rightarrow> Inl e
           | Inr p \<Rightarrow> Inr \<lparr>src = p, type_attr = ''audio/'' @ ext\<rparr>))"

definition getAvailableExts :: "host \<Rightarrow> string option \<Rightarrow> string list completion" where
  "getAvailableExts h nm =
     (if nm = None \<or> nm = Some [] then Rejected InvalidSoundName
      else Fulfilled (getBrowserExts h))"

definition getAvailableExt :: "host \<Rightarrow> string option \<Rightarrow> string completion" where
  "getAvailableExt h nm =
     (case getAvailableExts h nm of
        Fulfilled exts \<Rightarrow>
          (case getExtFromAvailableExts h exts of Inl e \<Rightarrow> Rejected e | Inr ext \<Rightarrow> Fulfilled ext)
      | Rejected e \<Rightarrow> Rejected e
      | Pending \<Rightarrow> Pending)"

text \<open>
  \<^verbatim>\<open>__setAudioElemSource\<close> returns a promise built with \<^verbatim>\<open>new Promise\<close>: a throw of the
  executor itself rejects it; its \<^verbatim>\<open>success\<close> and \<^verbatim>\<open>error\<close> are otherwise only called
  inside the \<^verbatim>\<open>then\<close> handler of \<^verbatim>\<open>__getAvailableExt\<close>. When that promise is rejected,
  or when the handler throws, neither is called and the promise never settles. The first
  component of the result is the sound object as the call leaves it (it is changed in
  place).
\<close>

definition setAudioElemSource :: "sounder \<Rightarrow> host \<Rightarrow> sound \<Rightarrow> sound \<times> sound completion" where
  "setAudioElemSource inst h sd =
     (case validateAudioElemStrict (audio sd) of
        Inl e \<Rightarrow> (sd, Rejected e)
      | Inr a \<Rightarrow>
          (case getAvailableExt h (name sd) of
             Rejected e \<Rightarrow> (sd, Pending)
           | Pending \<Rightarrow> (sd, Pending)
           | Fulfilled ext \<Rightarrow>
               if ext = [] then (sd, Rejected NoPlayableFormat)
               else (case makeAudioElemSource inst (nameText (name sd)) ext of
                       Inl e \<Rightarrow> (sd, Pending)
                     | Inr source \<Rightarrow>
                         (let sd' = sd\<lparr>audio := Some (appendChild source a)\<rparr>
                          in (sd', Fulfilled sd')))))"

text \<open>
  \<^verbatim>\<open>__makeAudioElem\<close>: a sound that already has an audio element resolves with that
  element (not with the sound); otherwise an element is created, configured and given its
  source.
\<close>

definition makeAudioElem :: "sounder \<Rightarrow> host \<Rightarrow> sound \<Rightarrow> sound \<times> entry completion" where
  "makeAudioElem inst h sd =
     (case audio sd of
        Some a \<Rightarrow> (sd, Fulfilled (ElemEntry a))
      | None \<Rightarrow>
          (let sd1 = sd\<lparr>audio := Some createAudio\<rparr>
           in case setAudioElemAttrs inst sd1 of
                Inl e \<Rightarrow> (sd1, Rejected e)
              | Inr sd2 \<Rightarrow>
                  (case setAudioElemSource inst h sd2 of
                     (sd3, Fulfilled r) \<Rightarrow> (sd3, Fulfilled (SoundEntry r))
                   | (sd3, Rejected e) \<Rightarrow> (sd3, Rejected e)
                   | (sd3, Pending) \<Rightarrow> (sd3, Pending))))"

subsection \<open>Preparing a list of sounds\<close>

fun isElemEntry :: "entry \<Rightarrow> bool" where
  "isElemEntry (ElemEntry a) = True"
| "isElemEntry (SoundEntry s) = False"

text \<open>The values pushed onto \<^verbatim>\<open>preparedSounds\<close> by the fulfilled promises of a list.\<close>

fun pushed :: "entry completion list \<Rightarrow> entry list" where
  "pushed [] = []"
| "pushed (Fulfilled e # rest) = e # pushed rest"
| "pushed (Rejected x # rest) = pushed rest"
| "pushed (Pending # rest) = pushed rest"

text \<open>The warnings of the per-sound \<^verbatim>\<open>catch\<close> handlers.\<close>

fun makeWarnings :: "(sound \<times> entry completion) list \<Rightarrow> string list" where
  "makeWarnings [] = []"
| "makeWarnings ((sd, Rejected x) # rest) =
     (''Failed at making '' @ quoted (nameText (name sd)) @ '' <audio> element.'') # makeWarnings rest"
| "makeWarnings ((sd, Fulfilled e) # rest) = makeWarnings rest"
| "makeWarnings ((sd, Pending) # rest) = makeWarnings rest"

text \<open>
  \<^verbatim>\<open>__makeAudioElemsFromData\<close>, for an argument that is an array. The result holds the
  sound objects as the call leaves them, the warnings logged, and what the returned
  promise settles to. \<^verbatim>\<open>Promise.all\<close> waits for every per-sound promise, each of which
  ends in a \<^verbatim>\<open>catch\<close>: it is fulfilled unless one of them never settles. The handlers push
  in the order the promises are fulfilled: a sound that already had its element is
  fulfilled at once, before the sounds whose element is created.
\<close>

definition makeAudioElemsFromData ::
  "sounder \<Rightarrow> host \<Rightarrow> sound list \<Rightarrow> sound list \<times> string list \<times> entry list completion" where
  "makeAudioElemsFromData inst h snds =
     (let results = map (makeAudioElem inst h) snds;
          outcomes = map snd results;
          preparedSounds = filter isElemEntry (pushed outcomes)
                           @ filter (\<lambda>e. \<not> isElemEntry e) (pushed outcomes)
      in (map fst results, makeWarnings results,
          if Pending \<in> set outcomes then Pending else Fulfilled preparedSounds))"

text \<open>
  A slot of the registry read as a sound object. An audio element has no \<^verbatim>\<open>name\<close>, none
  of the five attributes as an own property and no \<^verbatim>\<open>audio\<close> property.
\<close>

fun entrySound :: "entry \<Rightarrow> sound" where
  "entrySound (SoundEntry s) = s"
| "entrySound (ElemEntry a) = \<lparr>name = None, props = [], audio = None\<rparr>"

fun entryName :: "entry \<Rightarrow> string option" where
  "entryName (SoundEntry s) = name s"
| "entryName (ElemEntry a) = None"

text \<open>The registry after its sound objects were changed in place.\<close>

fun rewritten :: "entry \<Rightarrow> sound \<Rightarrow> entry" where
  "rewritten (SoundEntry s) s' = SoundEntry s'"
| "rewritten (ElemEntry a) s' = ElemEntry a"

subsection \<open>Preparation state\<close>

text \<open>
  A promise handed to a caller of \<^verbatim>\<open>prepare\<close> or \<^verbatim>\<open>wait\<close>: \<^verbatim>\<open>Promise.resolve(this)\<close>, or
  the value of \<^verbatim>\<open>this.__preparingPromise\<close>.
\<close>

datatype handle = ResolvedThis | Stored "nat option"

text \<open>
  \<^verbatim>\<open>prepare()\<close> up to its \<^verbatim>\<open>return\<close>: the two guards, the flag, and the promise of the
  new run stored in \<^verbatim>\<open>__preparingPromise\<close>.
\<close>

definition prepare_call :: "sounder \<Rightarrow> handle \<times> sounder" where
  "prepare_call s =
     (if ready s then (ResolvedThis, s)
      else if preparing s then (Stored (preparingPromise s), s)
      else (Stored (Some (nextPromise s)),
            s\<lparr>preparing := True,
              preparingPromise := Some (nextPromise s),
              nextPromise := nextPromise s + 1,
              inflight := inflight s @ [nextPromise s]\<rparr>))"

definition wait_call :: "sounder \<Rightarrow> handle \<times> sounder" where
  "wait_call s =
     (if ready s then (ResolvedThis, s)
      else if preparing s then (Stored (preparingPromise s), s)
      else prepare_call s)"

text \<open>
  The handlers chained on \<^verbatim>\<open>__makeAudioElemsFromData(this.__sounds)\<close>: the \<^verbatim>\<open>then\<close> of
  \<^verbatim>\<open>__makeAudioElems\<close>, then the \<^verbatim>\<open>then\<close> and the \<^verbatim>\<open>catch\<close> of \<^verbatim>\<open>prepare\<close>. The argument is
  what the aggregate promise settled to, and the instance at that moment.
\<close>

definition prepare_handlers :: "entry list completion \<times> sounder \<Rightarrow> pval completion \<times> sounder" where
  "prepare_handlers agg =
     catch_st
       (then_st
          (then_st agg (\<lambda>snds s. (Inr snds, s\<lparr>sounds := snds\<rparr>)))
          (\<lambda>_ s. (Inr This, s\<lparr>ready := True, preparing := False\<rparr>)))
       (\<lambda>_ s. (Inr Undefined,
                s\<lparr>ready := False, preparing := False,
                  console := console s @ [''Failed at preparing <audio> elements.'']\<rparr>))"

text \<open>
  The aggregate promise of run \<open>p\<close> settles to \<open>agg\<close>: the handlers run, and the run is
  no longer in flight. Nothing happens for a promise that is not in flight, or that never
  settles.
\<close>

definition settle :: "nat \<Rightarrow> entry list completion \<Rightarrow> sounder \<Rightarrow> sounder" where
  "settle p agg s =
     (if p \<in> set (inflight s) \<and> agg \<noteq> Pending
      then (let s' = snd (prepare_handlers (agg, s)) in s'\<lparr>inflight := remove1 p (inflight s')\<rparr>)
      else s)"

text \<open>What can happen to the preparation state, one event at a time.\<close>

datatype event = CallPrepare | CallWait | Settle nat "entry list completion"

fun exec :: "event \<Rightarrow> sounder \<Rightarrow> sounder" where
  "exec CallPrepare s = snd (prepare_call s)"
| "exec CallWait s = snd (wait_call s)"
| "exec (Settle p agg) s = settle p agg s"

definition run :: "event list \<Rightarrow> sounder \<Rightarrow> sounder" where
  "run evs s = fold exec evs s"

subsection \<open>Whole calls\<close>

text \<open>
  The operations below are taken with everything the promise machinery does before the
  next task of the event loop: the host's operations are synchronous, so every promise
  that settles at all has settled by then. The completion returned is what the promise
  given to the caller has settled to. Between tasks \<open>preparing\<close> is only true for a run
  that never settles.
\<close>

definition prepare :: "host \<Rightarrow> sounder \<Rightarrow> pval completion \<times> sounder" where
  "prepare h s =
     (if ready s then (Fulfilled This, s)
      else if preparing s then (Pending, s)
      else (let s1 = snd (prepare_call s);
                (mutated, warns, agg) = makeAudioElemsFromData s1 h (map entrySound (sounds s1));
                s2 = s1\<lparr>sounds := map2 rewritten (sounds s1) mutated,
                        console := console s1 @ warns\<rparr>
            in (fst (prepare_handlers (agg, s2)), settle (nextPromise s) agg s2)))"

definition wait :: "host \<Rightarrow> sounder \<Rightarrow> pval completion \<times> sounder" where
  "wait h s =
     (if ready s then (Fulfilled This, s)
      else if preparing s then (Pending, s)
      else prepare h s)"

definition init :: "host \<Rightarrow> params \<Rightarrow> err + sounder" where
  "init h p =
     (case Sounder p of
        Inl e \<Rightarrow> Inl e
      | Inr s \<Rightarrow>
          Inr (snd (catch_st (prepare h s)
                      (\<lambda>_ s'. (Inr Undefined,
                                s'\<lparr>console := console s' @
                                     [''Failed at preparing '' @ quoted ''Sounder'' @ '' instance.'']\<rparr>)))))"

subsection \<open>Playback facade\<close>

definition getSoundData :: "sounder \<Rightarrow> string \<Rightarrow> err + entry" where
  "getSoundData s soundName =
     (case find (\<lambda>e. entryName e = Some soundName) (sounds s) of
        Some e \<Rightarrow> Inr e
      | None \<Rightarrow> Inl SoundNotFound)"

definition hasSound :: "sounder \<Rightarrow> string \<Rightarrow> bool" where
  "hasSound s soundName = (case getSoundData s soundName of Inl _ \<Rightarrow> False | Inr _ \<Rightarrow> True)"

text \<open>A write to the audio element of the first sound of that name.\<close>

fun onFirst :: "string \<Rightarrow> (audio_elem \<Rightarrow> audio_elem) \<Rightarrow> entry list \<Rightarrow> entry list" where
  "onFirst nm f [] = []"
| "onFirst nm f (SoundEntry sd # es) =
     (if name sd = Some nm then SoundEntry (sd\<lparr>audio := map_option f (audio sd)\<rparr>) # es
      else SoundEntry sd # onFirst nm f es)"
| "onFirst nm f (ElemEntry a # es) = ElemEntry a # onFirst nm f es"

text \<open>
  \<^verbatim>\<open>this.__getSoundData(soundName).audio.m()\<close> for a method or a write \<open>m\<close> of the element
  that throws \<open>thrown\<close> (if any) and otherwise changes the element by \<open>f\<close>.
\<close>

definition onAudio ::
  "err option \<Rightarrow> (audio_elem \<Rightarrow> audio_elem) \<Rightarrow> string \<Rightarrow> sounder \<Rightarrow> (err + unit) \<times> sounder" where
  "onAudio thrown f soundName s =
     (case getSoundData s soundName of
        Inl e \<Rightarrow> (Inl e, s)
      | Inr ent \<Rightarrow>
          (case audio (entrySound ent) of
             None \<Rightarrow> (Inl TypeError, s)
           | Some a \<Rightarrow>
               (case thrown of
                  Some e \<Rightarrow> (Inl e, s)
                | None \<Rightarrow> (Inr (), s\<lparr>sounds := onFirst soundName f (sounds s)\<rparr>))))"

text \<open>\<^verbatim>\<open>play\<close> returns nothing; the model returns what its internal chain settles to.\<close>

definition play :: "host \<Rightarrow> string \<Rightarrow> sounder \<Rightarrow> unit completion \<times> sounder" where
  "play h soundName s =
     catch_st
       (then_st (wait h s) (\<lambda>_. onAudio (playThrows h) (\<lambda>a. a\<lparr>paused := False\<rparr>) soundName))
       (\<lambda>e s'. (Inr (),
                 s'\<lparr>console := console s' @
                      [''Failed at playing sound with name '' @ quoted soundName @ ''.'']\<rparr>))"

definition pause :: "host \<Rightarrow> string \<Rightarrow> sounder \<Rightarrow> unit completion \<times> sounder" where
  "pause h soundName s =
     catch_st
       (then_st (wait h s) (\<lambda>_. onAudio (pauseThrows h) (\<lambda>a. a\<lparr>paused := True\<rparr>) soundName))
       (\<lambda>e s'. (Inr (),
                 s'\<lparr>console := console s' @
                      [''Failed at setting '' @ quoted soundName @ '' sound on pause.'']\<rparr>))"

definition stop :: "host \<Rightarrow> string \<Rightarrow> sounder \<Rightarrow> unit completion \<times> sounder" where
  "stop h soundName s =
     then_st (pause h soundName s) (\<lambda>_. onAudio None (\<lambda>a. a\<lparr>currentTime := 0\<rparr>) soundName)"

definition updateSounds :: "entry list \<Rightarrow> sounder \<Rightarrow> sounder" where
  "updateSounds snds s = s\<lparr>sounds := sounds s @ snds\<rparr>"

definition addSounds :: "host \<Rightarrow> sound list \<Rightarrow> sounder \<Rightarrow> pval completion \<times> sounder" where
  "addSounds h specs s =
     (let (mutated, warns, agg) = makeAudioElemsFromData s h specs
      in then_st (agg, s\<lparr>console := console s @ warns\<rparr>)
           (\<lambda>snds s'. (Inr This, updateSounds snds s')))"

subsection \<open>Scenarios\<close>

text \<open>
  The scenario of the specification (section 8): a browser classified as Firefox that
  reports only mp3 as playable, and the configuration with the sounds "a" and "b" under
  the path "/s/".
\<close>

definition scenario_host :: host where
  "scenario_host =
     \<lparr>vendor = [],
      userAgent = ''Mozilla/5.0 (X11; Linux x86_64; rv:109.0) Gecko/20100101 Firefox/115.0'',
      canPlayType = Some (\<lambda>t. if t = MP3_TYPE then ''maybe'' else []),
      playThrows = None,
      pauseThrows = None\<rparr>"

definition sound_a :: sound where
  "sound_a =
     \<lparr>name = Some ''a'', props = [(''loop'', JBool True), (''volume'', JNum 1)], audio = None\<rparr>"

definition sound_b :: sound where
  "sound_b = \<lparr>name = Some ''b'', props = [], audio = None\<rparr>"

definition scenario_params :: params where
  "scenario_params =
     \<lparr>psounds = Some [sound_a, sound_b],
      popts = [(''path'', JStr ''/s/''), (''preload'', JBool True), (''volume'', JNum 1)]\<rparr>"

text \<open>A sound object without a name: \<^verbatim>\<open>{}\<close>.\<close>

definition sound_nameless :: sound where
  "sound_nameless = \<lparr>name = None, props = [], audio = None\<rparr>"

text \<open>\<^verbatim>\<open>new Sounder()\<close>, and a browser in which every catalogued type is playable.\<close>

definition new_sounder :: sounder where
  "new_sounder =
     \<lparr>sounds = [], path = [], autoplay = JBool False, loop = JBool False, muted = JBool False,
      preload = JBool True, volume = JNum 1, ready = False, preparing = False,
      preparingPromise = None, nextPromise = 0, inflight = [], console = []\<rparr>"

definition permissive_host :: host where
  "permissive_host =
     \<lparr>vendor = [], userAgent = [], canPlayType = Some (\<lambda>t. ''probably''),
      playThrows = None, pauseThrows = None\<rparr>"

text \<open>A configuration whose instance-wide default for \<^verbatim>\<open>loop\<close> is true, with the sound "b".\<close>

definition looping_params :: params where
  "looping_params = \<lparr>psounds = Some [sound_b], popts = [(''loop'', JBool True)]\<rparr>"

text \<open>The instance of the scenario once \<^verbatim>\<open>prepare()\<close> has settled.\<close>

definition scenario_ready :: sounder where
  "scenario_ready =
     (case Sounder scenario_params of Inr s \<Rightarrow> snd (prepare scenario_host s) | Inl e \<Rightarrow> new_sounder)"

text \<open>The sound "a" when it already owns an audio element, one without any source.\<close>

definition sound_a_owning :: sound where
  "sound_a_owning = sound_a\<lparr>audio := Some createAudio\<rparr>"

text \<open>The sound "a" with the element the scenario gives it.\<close>

definition sound_a_prepared :: sound where
  "sound_a_prepared =
     sound_a\<lparr>audio := Some \<lparr>attributes = [(''loop'', JBool True), (''preload'', JBool True),
                                          (''volume'', JNum 1)],
                            children = [\<lparr>src = ''/s/a.mp3'', type_attr = ''audio/mp3''\<rparr>],
                            currentTime = 0, paused = True\<rparr>\<rparr>"

text \<open>
  The invariant of the preparation state: no run is in flight and the instance is not
  preparing, or exactly one run is in flight, the instance is preparing and not ready,
  and the stored promise is the one of that run.
\<close>

definition prep_inv :: "sounder \<Rightarrow> bool" where
  "prep_inv s =
     ((inflight s = [] \<and> \<not> preparing s) \<or>
      (\<exists>p. inflight s = [p] \<and> preparing s \<and> \<not> ready s \<and> preparingPromise s = Some p))"

section \<open>Properties\<close>

subsection \<open>Preparation state\<close>

lemma prep_inv_prepare_call: "prep_inv s \<Longrightarrow> prep_inv (snd (prepare_call s))"
  by (auto simp: prep_inv_def prepare_call_def)

lemma prep_inv_wait_call: "prep_inv s \<Longrightarrow> prep_inv (snd (wait_call s))"
  by (auto simp: prep_inv_def wait_call_def prepare_call_def)

lemma prepare_handlers_cases:
  "prepare_handlers (agg, s) =
     (case agg of
        Fulfilled snds \<Rightarrow> (Fulfilled This, s\<lparr>sounds := snds, ready := True, preparing := False\<rparr>)
      | Rejected e \<Rightarrow> (Fulfilled Undefined,
           s\<lparr>ready := False, preparing := False,
             console := console s @ [''Failed at preparing <audio> elements.'']\<rparr>)
      | Pending \<Rightarrow> (Pending, s))"
  by (simp add: prepare_handlers_def then_st_def catch_st_def split: completion.splits)

lemma prep_inv_settle: "prep_inv s \<Longrightarrow> prep_inv (settle p agg s)"
  by (cases agg) (auto simp: prep_inv_def settle_def prepare_handlers_cases Let_def)

lemma prep_inv_exec: "prep_inv s \<Longrightarrow> prep_inv (exec ev s)"
  by (cases ev) (simp_all add: prep_inv_prepare_call prep_inv_wait_call prep_inv_settle)

lemma prep_inv_run: "prep_inv s \<Longrightarrow> prep_inv (run evs s)"
  unfolding run_def by (induction evs arbitrary: s) (simp_all add: prep_inv_exec)

lemma ready_exec: "prep_inv s \<Longrightarrow> ready s \<Longrightarrow> ready (exec ev s)"
  by (cases ev) (auto simp: prep_inv_def prepare_call_def wait_call_def settle_def)

lemma ready_run: "prep_inv s \<Longrightarrow> ready s \<Longrightarrow> ready (run evs s)"
  unfolding run_def
  by (induction evs arbitrary: s) (simp_all add: prep_inv_exec ready_exec)

lemma prep_inv_Sounder: "Sounder p = Inr s \<Longrightarrow> prep_inv s"
  by (auto simp: Sounder_def prep_inv_def split: sum.splits)

text \<open>
  Claim C1. Let \<open>s\<close> be the instance after any sequence of calls of \<^verbatim>\<open>prepare\<close> and
  \<^verbatim>\<open>wait\<close> and of settlements of aggregate promises, starting from a newly constructed
  instance. At most one preparation run is in flight. While a run is in flight, a call of
  \<^verbatim>\<open>prepare\<close> or of \<^verbatim>\<open>wait\<close> returns the promise of that run and leaves the instance as it
  is, so no second run starts. Once the instance is ready, \<^verbatim>\<open>prepare\<close> returns
  \<^verbatim>\<open>Promise.resolve(this)\<close> and changes nothing, and the instance stays ready whatever
  happens next.
\<close>

theorem prepare_single_run:
  assumes "Sounder p = Inr s0" and "s = run evs s0"
  shows "length (inflight s) \<le> 1 \<and>
         (inflight s \<noteq> [] \<longrightarrow>
            (\<exists>q. inflight s = [q] \<and> prepare_call s = (Stored (Some q), s) \<and>
                 wait_call s = (Stored (Some q), s))) \<and>
         (ready s \<longrightarrow> prepare_call s = (ResolvedThis, s) \<and> (\<forall>evs'. ready (run evs' s)))"
proof -
  from assms have i: "prep_inv s" by (simp add: prep_inv_Sounder prep_inv_run)
  then show ?thesis
    by (auto simp: prep_inv_def prepare_call_def wait_call_def ready_run [OF i])
qed

lemma Sounder_empty: "Sounder \<lparr>psounds = None, popts = []\<rparr> = Inr new_sounder"
  by (simp add: Sounder_def prepareSounds_def new_sounder_def getProp_def)

theorem prepare_single_run_witness:
  "Sounder \<lparr>psounds = None, popts = []\<rparr> = Inr new_sounder \<and>
   inflight (run [CallPrepare, CallWait] new_sounder) = [0] \<and>
   prepare_call (run [CallPrepare, CallWait] new_sounder) =
     (Stored (Some 0), run [CallPrepare, CallWait] new_sounder) \<and>
   ready (run [CallPrepare, Settle 0 (Fulfilled []), CallPrepare] new_sounder) \<and>
   (\<forall>evs'. ready (run evs' (run [CallPrepare, Settle 0 (Fulfilled []), CallPrepare] new_sounder)))"
proof -
  have a: "inflight (run [CallPrepare, CallWait] new_sounder) = [0]"
    by (simp add: run_def prepare_call_def wait_call_def new_sounder_def)
  have b: "ready (run [CallPrepare, Settle 0 (Fulfilled []), CallPrepare] new_sounder)"
    by (simp add: run_def prepare_call_def settle_def prepare_handlers_cases new_sounder_def)
  from a b prepare_single_run [OF Sounder_empty refl, of "[CallPrepare, CallWait]"]
    prepare_single_run [OF Sounder_empty refl, of "[CallPrepare, Settle 0 (Fulfilled []), CallPrepare]"]
  show ?thesis by (simp add: Sounder_empty)
qed

text \<open>
  Claim C10. Whatever the aggregate promise settles to, the promise of \<^verbatim>\<open>prepare\<close> is
  not rejected. When the aggregate is rejected, the handlers reset both flags, log the
  warning, and the promise is fulfilled with no value. Hence neither \<^verbatim>\<open>prepare\<close> nor
  \<^verbatim>\<open>wait\<close> returns a rejected promise, and the rejection handler of \<^verbatim>\<open>Sounder.init\<close> never
  runs: \<^verbatim>\<open>init\<close> is the constructor followed by \<^verbatim>\<open>prepare\<close>.
\<close>

theorem prepare_never_rejects:
  "fst (prepare_handlers (agg, s)) \<noteq> Rejected e \<and>
   prepare_handlers (Rejected x, s) =
     (Fulfilled Undefined,
      s\<lparr>ready := False, preparing := False,
        console := console s @ [''Failed at preparing <audio> elements.'']\<rparr>) \<and>
   fst (prepare h s) \<noteq> Rejected e \<and>
   fst (wait h s) \<noteq> Rejected e \<and>
   init h p = (case Sounder p of Inl y \<Rightarrow> Inl y | Inr s0 \<Rightarrow> Inr (snd (prepare h s0)))"
proof -
  have a: "fst (prepare_handlers (agg, s)) \<noteq> Rejected e" for agg s e
    by (simp add: prepare_handlers_cases split: completion.splits)
  have b: "fst (prepare h s) \<noteq> Rejected e" for s e
    by (simp add: prepare_def Let_def a split: prod.splits)
  have c: "fst (wait h s) \<noteq> Rejected e" for s e
    by (simp add: wait_def b)
  have d: "catch_st (prepare h s0) f = prepare h s0" for s0 f
    using b [of s0] by (cases "prepare h s0") (auto simp: catch_st_def split: completion.splits)
  have r: "prepare_handlers (Rejected x, s) =
     (Fulfilled Undefined,
      s\<lparr>ready := False, preparing := False,
        console := console s @ [''Failed at preparing <audio> elements.'']\<rparr>)"
    by (simp add: prepare_handlers_cases)
  have i: "init h p = (case Sounder p of Inl y \<Rightarrow> Inl y | Inr s0 \<Rightarrow> Inr (snd (prepare h s0)))"
    by (simp add: init_def d split: sum.splits)
  show ?thesis
    apply (intro conjI)
        apply (rule a)
       apply (rule r)
      apply (rule b)
     apply (rule c)
    apply (rule i)
    done
qed

subsection \<open>Registration\<close>

lemma prepareSoundsMap_missing:
  "\<exists>s \<in> set specs. nameMissing s \<Longrightarrow> prepareSoundsMap specs = Inl InvalidSoundName"
proof (induction specs)
  case Nil
  then show ?case by simp
next
  case (Cons s ss)
  show ?case
  proof (cases "nameMissing s")
    case True
    then show ?thesis by simp
  next
    case False
    with Cons.prems have "\<exists>s \<in> set ss. nameMissing s" by simp
    from Cons.IH [OF this] False show ?thesis by simp
  qed
qed

text \<open>
  Claim C9. If some spec of the list passed to registration has no name or an empty
  name, \<^verbatim>\<open>__prepareSounds\<close> fails with \<open>InvalidSoundName\<close>, and so does the constructor
  that calls it.
\<close>

theorem register_missing_name:
  assumes "\<exists>s \<in> set specs. nameMissing s"
  shows "prepareSounds (Some specs) = Inl InvalidSoundName \<and>
         Sounder \<lparr>psounds = Some specs, popts = opts\<rparr> = Inl InvalidSoundName"
proof -
  from assms have ne: "specs \<noteq> []" by auto
  with prepareSoundsMap_missing [OF assms] have "prepareSounds (Some specs) = Inl InvalidSoundName"
    by (simp add: prepareSounds_def)
  then show ?thesis by (simp add: Sounder_def)
qed

theorem register_missing_name_witness:
  "(\<exists>s \<in> set [sound_a, sound_nameless]. nameMissing s) \<and>
   prepareSounds (Some [sound_a, sound_nameless]) = Inl InvalidSoundName"
proof -
  have h: "\<exists>s \<in> set [sound_a, sound_nameless]. nameMissing s"
    by (simp add: nameMissing_def sound_nameless_def)
  from register_missing_name [OF h] h show ?thesis by simp
qed

subsection \<open>Construction\<close>

lemma Sounder_defaults:
  "Sounder \<lparr>psounds = None, popts = []\<rparr> = Inr s \<Longrightarrow>
     autoplay s = JBool False \<and> loop s = JBool False \<and> muted s = JBool False \<and>
     preload s = JBool True \<and> volume s = JNum 1"
  by (auto simp: Sounder_def prepareSounds_def getProp_def)

lemma Sounder_typed_options:
  assumes "Sounder \<lparr>psounds = sn,
                    popts = [(''loop'', JBool l), (''muted'', JBool m), (''preload'', JBool pl),
                             (''volume'', JNum v)]\<rparr> = Inr s"
  shows "loop s = JBool l \<and> muted s = JBool m \<and> preload s = JBool pl \<and> volume s = JNum v"
  using assms by (auto simp: Sounder_def getProp_def split: sum.splits)

text \<open>
  Claim C6, at the input \<^verbatim>\<open>{autoplay: true}\<close>. The constructor keeps \<^verbatim>\<open>params.autoplay\<close>
  only when it is a string, so a boolean \<^verbatim>\<open>true\<close> is dropped: the instance is the one
  \<^verbatim>\<open>new Sounder()\<close> builds, with \<open>autoplay\<close> false. The same input for \<^verbatim>\<open>loop\<close>, whose
  guard tests for a boolean, becomes the instance default.
\<close>

theorem autoplay_boolean_ignored:
  "Sounder \<lparr>psounds = None, popts = [(''autoplay'', JBool True)]\<rparr> = Inr new_sounder \<and>
   autoplay new_sounder = JBool False \<and>
   Sounder \<lparr>psounds = None, popts = [(''loop'', JBool True)]\<rparr> = Inr (new_sounder\<lparr>loop := JBool True\<rparr>)"
  by code_simp

subsection \<open>Browser classifier\<close>

text \<open>
  Claim C7, as amended. The classifier returns one of the seven names, and each name is
  returned exactly under the condition of its place in the chain the code checks:
  chrome (a Chrome token, a Google vendor and no Opera token), then firefox, then opera,
  then explorer, edge and safari. An Opera token rules out chrome, explorer, edge and
  safari, but not firefox, which is checked before it.
\<close>

theorem getBrowserName_chain:
  "getBrowserName v ua \<in> {''chrome'', ''firefox'', ''opera'', ''safari'', ''explorer'', ''edge'', []} \<and>
   (getBrowserName v ua = ''chrome'' \<longleftrightarrow>
      test_i ''chrome'' ua \<and> test_i ''google inc.'' v \<and> \<not> isOpera ua) \<and>
   (getBrowserName v ua = ''firefox'' \<longleftrightarrow>
      \<not> (test_i ''chrome'' ua \<and> test_i ''google inc.'' v \<and> \<not> isOpera ua) \<and> test_i ''firefox'' ua) \<and>
   (getBrowserName v ua = ''opera'' \<longleftrightarrow> \<not> test_i ''firefox'' ua \<and> isOpera ua) \<and>
   (getBrowserName v ua = ''explorer'' \<longleftrightarrow>
      \<not> (test_i ''chrome'' ua \<and> test_i ''google inc.'' v) \<and> \<not> test_i ''firefox'' ua \<and>
      \<not> isOpera ua \<and> test_i ''msie'' ua) \<and>
   (getBrowserName v ua = ''edge'' \<longleftrightarrow>
      \<not> (test_i ''chrome'' ua \<and> test_i ''google inc.'' v) \<and> \<not> test_i ''firefox'' ua \<and>
      \<not> isOpera ua \<and> \<not> test_i ''msie'' ua \<and> test_i ''edge'' ua) \<and>
   (getBrowserName v ua = ''safari'' \<longleftrightarrow>
      \<not> (test_i ''chrome'' ua \<and> test_i ''google inc.'' v) \<and> \<not> test_i ''firefox'' ua \<and>
      \<not> isOpera ua \<and> \<not> test_i ''msie'' ua \<and> \<not> test_i ''edge'' ua \<and>
      test_i ''Apple Computer, Inc.'' v)"
  by (auto simp: getBrowserName_def)

text \<open>
  Claim C7 as stated fails on a user-agent string that Opera 9.5 sent when it identified
  itself as Firefox: it carries an Opera token, the chain of the specification answers
  opera, and the code answers firefox.
\<close>

theorem getBrowserName_counterexample:
  "isOpera ''Mozilla/5.0 (Windows NT 5.1; U; en; rv:1.8.1) Gecko/20061208 Firefox/2.0.0 Opera 9.50'' \<and>
   spec_priority_chain []
     ''Mozilla/5.0 (Windows NT 5.1; U; en; rv:1.8.1) Gecko/20061208 Firefox/2.0.0 Opera 9.50''
     = ''opera'' \<and>
   getBrowserName []
     ''Mozilla/5.0 (Windows NT 5.1; U; en; rv:1.8.1) Gecko/20061208 Firefox/2.0.0 Opera 9.50''
     = ''firefox''"
  by code_simp

subsection \<open>Format negotiation\<close>

lemma scanExts_find:
  assumes "\<forall>e \<in> set exts. \<exists>t. getAudioType e = Inr t"
  shows "scanExts h exts =
     (case find (\<lambda>e. canPlayExt h e = Inr True) exts of
        Some e \<Rightarrow> Inr e | None \<Rightarrow> Inl NoPlayableFormat)"
  using assms
proof (induction exts)
  case Nil
  then show ?case by simp
next
  case (Cons e es)
  then obtain t where t: "getAudioType e = Inr t" by auto
  then have "\<exists>b. canPlayExt h e = Inr b"
    by (auto simp: canPlayExt_def split: option.splits)
  then obtain b where b: "canPlayExt h e = Inr b" ..
  with Cons show ?case by (cases b) auto
qed

lemma getAudioType_catalog:
  "getAudioType OGG = Inr OGG_TYPE" "getAudioType MP3 = Inr MP3_TYPE"
  "getAudioType WAV = Inr WAV_TYPE" "getAudioType MP4 = Inr MP4_TYPE"
  "getAudioType AAC = Inr AAC_TYPE"
  by code_simp+

lemma canPlayExt_scenario:
  "canPlayExt scenario_host OGG = Inr False" "canPlayExt scenario_host MP3 = Inr True"
  by code_simp+

text \<open>
  Claim C2, as amended. For a list of extensions each of which has an audio type in the
  catalog, \<^verbatim>\<open>__getExtFromAvailableExts\<close> returns the earliest element the browser can play,
  and fails with \<open>NoPlayableFormat\<close> when the list is empty or holds no such element.
\<close>

theorem firstPlayable_catalogued:
  assumes "\<forall>e \<in> set exts. \<exists>t. getAudioType e = Inr t"
  shows "getExtFromAvailableExts h exts =
     (case find (\<lambda>e. canPlayExt h e = Inr True) exts of
        Some e \<Rightarrow> Inr e | None \<Rightarrow> Inl NoPlayableFormat)"
  using scanExts_find [OF assms, of h]
  by (cases exts) (simp_all add: getExtFromAvailableExts_def)

theorem firstPlayable_catalogued_witness:
  "getAudioType OGG = Inr OGG_TYPE \<and> getAudioType MP3 = Inr MP3_TYPE \<and>
   getAudioType WAV = Inr WAV_TYPE \<and>
   getExtFromAvailableExts scenario_host [OGG, MP3, WAV] = Inr MP3"
proof -
  have h: "\<forall>e \<in> set [OGG, MP3, WAV]. \<exists>t. getAudioType e = Inr t"
    by (simp add: getAudioType_catalog)
  from firstPlayable_catalogued [OF h, of scenario_host] show ?thesis
    by (simp add: canPlayExt_scenario getAudioType_catalog)
qed

text \<open>
  Claim C2 as stated fails on a list that holds an extension without an audio type:
  with "flac" before the playable "ogg" the scan does not return "ogg", and on the list
  of "flac" alone, where nothing is playable, it does not fail with \<open>NoPlayableFormat\<close>.
  Both times the error of \<^verbatim>\<open>__getAudioType\<close> ends the scan.
\<close>

theorem firstPlayable_counterexample:
  "canPlayExt permissive_host ''ogg'' = Inr True \<and>
   canPlayExt permissive_host ''flac'' = Inl UnknownEncoding \<and>
   getExtFromAvailableExts permissive_host [''flac'', ''ogg''] = Inl UnknownEncoding \<and>
   getExtFromAvailableExts permissive_host [''flac''] = Inl UnknownEncoding"
  by code_simp

subsection \<open>Sources\<close>

lemma setAudioElemAttr_keeps:
  assumes "setAudioElemAttr inst attr sd = Inr sd'" and "audio sd = Some a"
  shows "name sd' = name sd \<and> props sd' = props sd \<and>
         (\<exists>a'. audio sd' = Some a' \<and> children a' = children a)"
  using assms
  by (auto simp: setAudioElemAttr_def setAttribute_def validateAudioElemStrict_def
           split: sum.splits if_splits option.splits)

lemma setAttrsEach_keeps:
  assumes "setAttrsEach inst as sd = Inr sd'" and "audio sd = Some a"
  shows "name sd' = name sd \<and> props sd' = props sd \<and>
         (\<exists>a'. audio sd' = Some a' \<and> children a' = children a)"
  using assms
proof (induction as arbitrary: sd a)
  case Nil
  then show ?case by simp
next
  case (Cons x xs)
  from Cons.prems obtain sd1 where s1: "setAudioElemAttr inst x sd = Inr sd1"
    and rest: "setAttrsEach inst xs sd1 = Inr sd'"
    by (auto split: sum.splits)
  from setAudioElemAttr_keeps [OF s1 Cons.prems(2)]
  obtain a1 where k: "name sd1 = name sd" "props sd1 = props sd" "audio sd1 = Some a1"
    "children a1 = children a"
    by blast
  from Cons.IH [OF rest k(3)] k show ?case by auto
qed

lemma fulfilled_sound_source:
  assumes "makeAudioElem inst h sd = (sd', Fulfilled (SoundEntry r))"
  shows "\<exists>nm ext a. name sd = Some nm \<and> nm \<noteq> [] \<and>
           getExtFromAvailableExts h (getBrowserExts h) = Inr ext \<and>
           audio r = Some a \<and>
           children a = [\<lparr>src = path inst @ nm @ ''.'' @ ext, type_attr = ''audio/'' @ ext\<rparr>]"
proof -
  from assms have noaudio: "audio sd = None"
    by (auto simp: makeAudioElem_def split: option.splits)
  let ?sd1 = "sd\<lparr>audio := Some createAudio\<rparr>"
  from assms noaudio obtain sd2 where
    a2: "setAudioElemAttrs inst ?sd1 = Inr sd2" and
    a3: "setAudioElemSource inst h sd2 = (sd', Fulfilled r)"
    by (auto simp: makeAudioElem_def Let_def split: sum.splits completion.splits prod.splits)
  from a2 have "setAttrsEach inst attrs ?sd1 = Inr sd2"
    by (simp add: setAudioElemAttrs_def)
  from setAttrsEach_keeps [OF this, of createAudio]
  obtain a2' where k: "name sd2 = name sd" "audio sd2 = Some a2'" "children a2' = []"
    by (auto simp: createAudio_def)
  from a3 k show ?thesis
    by (auto simp: setAudioElemSource_def validateAudioElemStrict_def getAvailableExt_def
          getAvailableExts_def makeAudioElemSource_def getSoundPath_def getSoundPathBase_def
          nameText_def appendChild_def Let_def
          split: sum.splits completion.splits if_splits option.splits)
qed

lemma owned_element_skipped:
  "audio sd = Some a \<Longrightarrow> makeAudioElem inst h sd = (sd, Fulfilled (ElemEntry a))"
  by (simp add: makeAudioElem_def)

text \<open>
  Claim C8, as amended. For a sound that does not own an audio element yet: whenever
  \<^verbatim>\<open>__makeAudioElem\<close> is fulfilled, it is fulfilled with a sound, that sound has a
  non-empty name, the scan of the browser's extensions found an extension \<open>ext\<close>, and the
  audio element of the sound has exactly one source, whose \<^verbatim>\<open>src\<close> is the instance path
  followed by the name, a dot and \<open>ext\<close>, and whose \<^verbatim>\<open>type\<close> is "audio/" followed by
  \<open>ext\<close>.
\<close>

theorem created_sound_source:
  assumes "audio sd = None" and "makeAudioElem inst h sd = (sd', Fulfilled e)"
  shows "\<exists>r nm ext a. e = SoundEntry r \<and> name sd = Some nm \<and> nm \<noteq> [] \<and>
           getExtFromAvailableExts h (getBrowserExts h) = Inr ext \<and>
           audio r = Some a \<and>
           children a = [\<lparr>src = path inst @ nm @ ''.'' @ ext, type_attr = ''audio/'' @ ext\<rparr>]"
proof -
  from assms obtain r where e: "e = SoundEntry r"
    by (auto simp: makeAudioElem_def Let_def split: sum.splits completion.splits prod.splits)
  with assms(2) have "makeAudioElem inst h sd = (sd', Fulfilled (SoundEntry r))" by simp
  from fulfilled_sound_source [OF this] e show ?thesis by blast
qed

theorem created_sound_source_witness:
  "audio sound_a = None \<and>
   makeAudioElem (new_sounder\<lparr>path := ''/s/''\<rparr>) scenario_host sound_a
     = (sound_a_prepared, Fulfilled (SoundEntry sound_a_prepared)) \<and>
   (\<exists>r nm ext a. SoundEntry sound_a_prepared = SoundEntry r \<and>
      name sound_a = Some nm \<and> nm \<noteq> [] \<and>
      getExtFromAvailableExts scenario_host (getBrowserExts scenario_host) = Inr ext \<and>
      audio r = Some a \<and>
      children a = [\<lparr>src = path (new_sounder\<lparr>path := ''/s/''\<rparr>) @ nm @ ''.'' @ ext,
                     type_attr = ''audio/'' @ ext\<rparr>])"
proof -
  have n: "audio sound_a = None" by (simp add: sound_a_def)
  have e: "makeAudioElem (new_sounder\<lparr>path := ''/s/''\<rparr>) scenario_host sound_a
     = (sound_a_prepared, Fulfilled (SoundEntry sound_a_prepared))"
    by code_simp
  from created_sound_source [OF n e] n e show ?thesis by blast
qed

text \<open>
  Claim C8 as stated fails on a sound that already owns an audio element, here one
  without sources. \<^verbatim>\<open>__makeAudioElem\<close> skips it: the promise is fulfilled, with the
  element, and no source is attached. \<^verbatim>\<open>prepare()\<close> on an instance whose registry holds
  that sound resolves with the instance, and the registry then holds the element, still
  without a source.
\<close>

theorem owned_element_counterexample:
  "makeAudioElem (new_sounder\<lparr>path := ''/s/''\<rparr>) scenario_host sound_a_owning
     = (sound_a_owning, Fulfilled (ElemEntry createAudio)) \<and>
   audio sound_a_owning = Some createAudio \<and>
   children createAudio = [] \<and>
   fst (prepare scenario_host (new_sounder\<lparr>path := ''/s/'', sounds := [SoundEntry sound_a_owning]\<rparr>))
     = Fulfilled This \<and>
   sounds (snd (prepare scenario_host
                  (new_sounder\<lparr>path := ''/s/'', sounds := [SoundEntry sound_a_owning]\<rparr>)))
     = [ElemEntry createAudio]"
  by code_simp

subsection \<open>Attributes\<close>

text \<open>
  Claim C3, at the input \<^verbatim>\<open>{sounds: [{name: "b"}], loop: true}\<close>. The instance default of
  \<^verbatim>\<open>loop\<close> is true and the sound gives no \<^verbatim>\<open>loop\<close> of its own, but registration merged
  the built-in \<^verbatim>\<open>loop: false\<close> into the sound, so \<^verbatim>\<open>__getAudioAttrVal\<close> answers false and
  the prepared element carries \<^verbatim>\<open>preload\<close> and \<^verbatim>\<open>volume\<close> only.
\<close>

theorem instance_default_shadowed:
  "(case Sounder looping_params of
      Inl e \<Rightarrow> False
    | Inr s \<Rightarrow>
        loop s = JBool True \<and>
        map (\<lambda>e. getAudioAttrVal s ''loop'' (entrySound e)) (sounds s) = [Inr (JBool False)] \<and>
        map (\<lambda>e. map_option attributes (audio (entrySound e)))
            (sounds (snd (prepare scenario_host s)))
          = [Some [(''preload'', JBool True), (''volume'', JNum 1)]])"
  by code_simp

subsection \<open>Playback facade\<close>

lemma pause_never_rejects: "fst (pause h soundName s) \<noteq> Rejected e"
  by (auto simp: pause_def catch_st_def then_st_def split: prod.splits completion.splits sum.splits)

lemma play_never_rejects: "fst (play h soundName s) \<noteq> Rejected e"
  by (auto simp: play_def catch_st_def then_st_def split: prod.splits completion.splits sum.splits)

text \<open>
  Claim C4, at the input \<^verbatim>\<open>stop("missing")\<close> on \<^verbatim>\<open>new Sounder()\<close>. The promise of
  \<^verbatim>\<open>pause\<close> is fulfilled, its \<^verbatim>\<open>catch\<close> having logged the lookup miss; the handler that
  \<^verbatim>\<open>stop\<close> chains on it looks the sound up again, outside any \<^verbatim>\<open>catch\<close>, and the promise
  \<^verbatim>\<open>stop\<close> returns is rejected with \<open>SoundNotFound\<close>.
\<close>

theorem stop_missing_rejects:
  "fst (pause scenario_host ''missing'' new_sounder) = Fulfilled () \<and>
   fst (stop scenario_host ''missing'' new_sounder) = Rejected SoundNotFound"
  by code_simp

subsection \<open>Adding sounds\<close>

lemma addSounds_appends:
  "prefix (sounds s) (sounds (snd (addSounds h specs s))) \<and>
   fst (addSounds h specs s) \<in> {Fulfilled This, Pending}"
  by (auto simp: addSounds_def makeAudioElemsFromData_def then_st_def updateSounds_def Let_def)

text \<open>
  Claim C5, at the inputs \<^verbatim>\<open>addSounds([{}])\<close> and \<^verbatim>\<open>addSounds([{name: "b"}])\<close> on the
  prepared instance of the scenario. Registration refuses the nameless spec with
  \<open>InvalidSoundName\<close>; \<^verbatim>\<open>addSounds\<close> returns a promise that never settles and leaves the
  instance as it was. Registration merges the default options into the spec "b";
  the entry \<^verbatim>\<open>addSounds\<close> appends after the two sounds of the scenario has none of them.
\<close>

theorem addSounds_skips_registration:
  "prepareSounds (Some [sound_nameless]) = Inl InvalidSoundName \<and>
   addSounds scenario_host [sound_nameless] scenario_ready = (Pending, scenario_ready) \<and>
   prepareSounds (Some [sound_b]) = Inr [sound_b\<lparr>props := props getDefSoundParams\<rparr>] \<and>
   map (\<lambda>e. props (entrySound e))
       (drop 2 (sounds (snd (addSounds scenario_host [sound_b] scenario_ready))))
     = [[]]"
  by code_simp

end
